theory Spec2Isabelle
  imports Complex_Main "HOL-Library.Sublist"
begin

section \<open>School records console: the store, the record accessors and the generic view\<close>

text \<open>
  The program is one script: it opens a relational store (SQLite), creates seven tables,
  defines three record accessors (\<open>get_df\<close>, \<open>add_record\<close>, \<open>delete_record\<close>), one
  generic view (\<open>crud_module\<close>) and a router over the selected module.  The script's global
  connection becomes an explicit store that every operation takes and returns; every
  exception the script can raise becomes a \<open>fault\<close>.

  The storage engine and the data-frame library are not part of the script.  What the
  script's statements need from them is written out below from their documented behaviour;
  what depends on floating-point conversion or formatting is taken as a parameter of the
  operation that needs it and is never fixed by the model.
\<close>

subsection \<open>Values\<close>

text \<open>
  \<open>pyval\<close>: the values the script binds to a statement.  A text widget yields a string, a
  number widget with an integer bound yields an integer, \<open>str(date.today())\<close> is a string.
  \<open>cell\<close>: what a column of the store holds (a storage class and a value).  A REAL cell is
  represented by the real number it denotes.
\<close>

datatype pyval = PyStr string | PyInt int

datatype cell = SNull | SInteger int | SReal real | SText string

datatype affinity = INTEGER | REAL | TEXT

text \<open>
  Faults.  \<open>Syntax_error\<close>, \<open>No_such_table\<close>, \<open>No_such_column\<close> and \<open>Values_mismatch\<close> are
  the engine's errors when a statement is compiled (sqlite3.OperationalError);
  \<open>Overflow_error\<close> is the binding of a Python integer outside 64 bits; \<open>Key_error\<close> and
  \<open>Type_error\<close> are the frame library's errors for a missing column and for adding an
  integer to a string; \<open>Re_error\<close> is a search pattern that does not compile.
  The last three mark the border of the model, not an exception of the script:
  \<open>Rowid_exhausted\<close> (the largest identifier in use is \<open>2^63 - 1\<close>, where the engine
  starts probing random identifiers), \<open>Primary_key_write\<close> (a statement that names the
  \<open>id\<close> column as a target, which no statement of the script does) and
  \<open>Pattern_not_modelled\<close> (a search pattern outside the modelled fragment of regular
  expressions).
\<close>

datatype fault =
    Syntax_error | No_such_table | No_such_column | Values_mismatch | Overflow_error
  | Key_error | Type_error | Re_error
  | Rowid_exhausted | Primary_key_write | Pattern_not_modelled

definition int64 :: "int \<Rightarrow> bool" where
  "int64 n \<longleftrightarrow> - (2 ^ 63) \<le> n \<and> n < 2 ^ 63"

fun bindable :: "pyval \<Rightarrow> bool" where
  "bindable (PyStr s) = True"
| "bindable (PyInt n) = int64 n"

subsection \<open>Decimal text\<close>

definition digit_char :: "nat \<Rightarrow> char" where
  "digit_char d = ''0123456789'' ! d"

fun digits :: "nat \<Rightarrow> string" where
  "digits n = (if n < 10 then [digit_char n] else digits (n div 10) @ [digit_char (n mod 10)])"

declare digits.simps [simp del]

text \<open>Python's \<open>str\<close> of an integer, which is also the engine's text form of an integer.\<close>

definition str_int :: "int \<Rightarrow> string" where
  "str_int n = (if n < 0 then CHR ''-'' # digits (nat (- n)) else digits (nat n))"

definition is_digit :: "char \<Rightarrow> bool" where
  "is_digit c \<longleftrightarrow> 48 \<le> (of_char c :: nat) \<and> (of_char c :: nat) \<le> 57"

definition digits_value :: "string \<Rightarrow> nat" where
  "digits_value s = fold (\<lambda>c n. 10 * n + ((of_char c :: nat) - 48)) s 0"

text \<open>
  A plain decimal integer literal: an optional minus sign and one or more digits, with a
  value that fits in 64 bits.  Every such text is a well-formed integer literal for the
  engine.
\<close>

definition plain_decimal :: "string \<Rightarrow> int option" where
  "plain_decimal s =
     (case s of
        [] \<Rightarrow> None
      | c # ds \<Rightarrow>
          if c = CHR ''-'' then
            (if ds \<noteq> [] \<and> list_all is_digit ds \<and> int64 (- int (digits_value ds))
             then Some (- int (digits_value ds)) else None)
          else
            (if list_all is_digit s \<and> int64 (int (digits_value s))
             then Some (int (digits_value s)) else None))"

subsection \<open>Column affinity: the store's native typing\<close>

text \<open>
  The engine converts a bound value to the affinity of the column it is stored in.
  Text stored in an INTEGER or REAL column becomes a number when it is a well-formed
  integer or real literal and stays text otherwise.  Plain decimal literals are recognised
  by \<open>plain_decimal\<close>; for every other text the engine's reading (signs, blanks, fractions,
  exponents, values beyond 64 bits) is the parameter \<open>lit\<close>: \<open>lit s = Some c\<close> when the
  engine reads \<open>s\<close> as the number \<open>c\<close>, \<open>None\<close> when \<open>s\<close> is not numeric.
  A REAL column forces an integer into floating point: \<open>to_double\<close> is the double
  nearest to a 64-bit integer, the even one of two that are equally near (53 bits of
  precision).  A TEXT column stores the text form of a number.
\<close>

fun bits :: "nat \<Rightarrow> nat" where
  "bits n = (if n = 0 then 0 else Suc (bits (n div 2)))"

declare bits.simps [simp del]

definition to_double :: "int \<Rightarrow> real" where
  "to_double n =
     (let m = nat \<bar>n\<bar>; k = bits m - 53; q = m div 2 ^ k; r = m mod 2 ^ k;
          q' = (if 2 * r > 2 ^ k \<or> (2 * r = 2 ^ k \<and> odd q) then q + 1 else q)
      in of_int (sgn n * int (q' * 2 ^ k)))"

definition numeric_text :: "(string \<Rightarrow> cell option) \<Rightarrow> string \<Rightarrow> cell option" where
  "numeric_text lit s = (case plain_decimal s of Some n \<Rightarrow> Some (SInteger n) | None \<Rightarrow> lit s)"

fun apply_affinity :: "(string \<Rightarrow> cell option) \<Rightarrow> affinity \<Rightarrow> pyval \<Rightarrow> cell" where
  "apply_affinity lit TEXT (PyStr s) = SText s"
| "apply_affinity lit TEXT (PyInt n) = SText (str_int n)"
| "apply_affinity lit INTEGER (PyInt n) = SInteger n"
| "apply_affinity lit INTEGER (PyStr s) =
     (case numeric_text lit s of Some c \<Rightarrow> c | None \<Rightarrow> SText s)"
| "apply_affinity lit REAL (PyInt n) = SReal (to_double n)"
| "apply_affinity lit REAL (PyStr s) =
     (case numeric_text lit s of
        Some (SInteger n) \<Rightarrow> SReal (to_double n)
      | Some c \<Rightarrow> c
      | None \<Rightarrow> SText s)"

subsection \<open>The store\<close>

text \<open>
  Every table of the script is declared \<open>(id INTEGER PRIMARY KEY, ...)\<close>: the \<open>id\<close> column
  is the engine's row identifier, kept here in the field \<open>rid\<close>; \<open>cells\<close> holds the other
  columns in the order of the table's declaration, and \<open>schema\<close> their names and
  affinities.  The rows of a table are listed in the order in which
  \<open>SELECT * FROM table\<close> returns them.
\<close>

record row =
  rid :: int
  cells :: "cell list"

record table =
  schema :: "(string \<times> affinity) list"
  rows :: "row list"

type_synonym store = "string \<Rightarrow> table option"

definition tables :: "(string \<times> (string \<times> affinity) list) list" where
  "tables =
    [(''students'', [(''name'', TEXT), (''class'', TEXT), (''age'', INTEGER)]),
     (''teachers'', [(''name'', TEXT), (''subject'', TEXT)]),
     (''attendance'', [(''student_id'', INTEGER), (''date'', TEXT), (''status'', TEXT)]),
     (''fees'', [(''student_id'', INTEGER), (''amount'', REAL), (''paid'', INTEGER)]),
     (''exams'', [(''student_id'', INTEGER), (''subject'', TEXT), (''marks'', INTEGER)]),
     (''library'', [(''book'', TEXT), (''student_id'', INTEGER), (''issue_date'', TEXT)]),
     (''timetable'', [(''class'', TEXT), (''day'', TEXT), (''subject'', TEXT), (''teacher'', TEXT)])]"

text \<open>\<open>CREATE TABLE IF NOT EXISTS\<close>: a table that exists is left as it is.\<close>

definition create_table :: "string \<Rightarrow> (string \<times> affinity) list \<Rightarrow> store \<Rightarrow> store" where
  "create_table t sch db =
     (case db t of None \<Rightarrow> db(t \<mapsto> \<lparr>schema = sch, rows = []\<rparr>) | Some T \<Rightarrow> db)"

definition create_tables :: "store \<Rightarrow> store" where
  "create_tables db = fold (\<lambda>(t, sch). create_table t sch) tables db"

text \<open>The store of a first start: no file yet, the seven tables created empty.\<close>

definition fresh_store :: store where
  "fresh_store = create_tables Map.empty"

subsection \<open>Record accessors\<close>

text \<open>
  A data frame: the column names (\<open>id\<close> first) and one list of cells per row.  The frame
  holds the cells as the store returns them; the frame library's choice of a machine
  representation for a column (integers or floating point) is not part of the model.
\<close>

record frame =
  columns :: "string list"
  data :: "cell list list"

definition row_cells :: "row \<Rightarrow> cell list" where
  "row_cells r = SInteger (rid r) # cells r"

definition get_df :: "store \<Rightarrow> string \<Rightarrow> fault + frame" where
  "get_df db t =
     (case db t of
        None \<Rightarrow> Inl No_such_table
      | Some T \<Rightarrow> Inr \<lparr>columns = ''id'' # map fst (schema T), data = map row_cells (rows T)\<rparr>)"

text \<open>
  The identifier of an inserted row when the statement gives none: 1 in an empty table,
  otherwise one more than the largest identifier in use.
\<close>

definition max_rowid :: "row list \<Rightarrow> int" where
  "max_rowid rs = fold (\<lambda>r m. max (rid r) m) rs (rid (hd rs))"

definition new_rowid :: "row list \<Rightarrow> fault + int" where
  "new_rowid rs =
     (if rs = [] then Inr 1
      else if max_rowid rs \<ge> 2 ^ 63 - 1 then Inl Rowid_exhausted
      else Inr (max_rowid rs + 1))"

text \<open>
  \<open>add_record\<close> runs \<open>INSERT INTO table (cols) VALUES (?, ..., ?)\<close> with one placeholder
  per value, then commits.  With no column or no value the statement reads \<open>()\<close> and
  does not parse.  A column the statement does not name is stored as NULL.
\<close>

definition inserted_cells ::
  "(string \<Rightarrow> cell option) \<Rightarrow> (string \<times> affinity) list \<Rightarrow> string list \<Rightarrow> pyval list \<Rightarrow> cell list" where
  "inserted_cells lit sch cols vals =
     map (\<lambda>(c, a). case map_of (zip cols vals) c of
                       None \<Rightarrow> SNull
                     | Some v \<Rightarrow> apply_affinity lit a v) sch"

definition add_record ::
  "(string \<Rightarrow> cell option) \<Rightarrow> store \<Rightarrow> string \<Rightarrow> string list \<Rightarrow> pyval list \<Rightarrow> fault + store" where
  "add_record lit db t cols vals =
     (if cols = [] \<or> vals = [] then Inl Syntax_error
      else
        (case db t of
           None \<Rightarrow> Inl No_such_table
         | Some T \<Rightarrow>
             if ''id'' \<in> set cols then Inl Primary_key_write
             else if \<not> set cols \<subseteq> fst ` set (schema T) then Inl No_such_column
             else if length vals \<noteq> length cols then Inl Values_mismatch
             else if \<not> list_all bindable vals then Inl Overflow_error
             else
               (case new_rowid (rows T) of
                  Inl e \<Rightarrow> Inl e
                | Inr i \<Rightarrow>
                    Inr (db(t \<mapsto> T\<lparr>rows := rows T @
                      [\<lparr>rid = i, cells = inserted_cells lit (schema T) cols vals\<rparr>]\<rparr>)))))"

text \<open>\<open>delete_record\<close> runs \<open>DELETE FROM table WHERE id=?\<close>, then commits.\<close>

definition delete_record :: "store \<Rightarrow> string \<Rightarrow> int \<Rightarrow> fault + store" where
  "delete_record db t id_val =
     (case db t of
        None \<Rightarrow> Inl No_such_table
      | Some T \<Rightarrow>
          if \<not> int64 id_val then Inl Overflow_error
          else Inr (db(t \<mapsto> T\<lparr>rows := filter (\<lambda>r. rid r \<noteq> id_val) (rows T)\<rparr>)))"

subsection \<open>The generic view: add, search, delete, update\<close>

text \<open>
  \<open>crud_module(title, table, fields, field_labels, add_cols)\<close> draws four panels.  Each
  panel is modelled by the function it runs when its button is pressed (or, for the
  search box, on every render).  The add panel has one text input per field and binds
  the texts as they are.
\<close>

definition crud_add ::
  "(string \<Rightarrow> cell option) \<Rightarrow> store \<Rightarrow> string \<Rightarrow> string list \<Rightarrow> string list \<Rightarrow> fault + store" where
  "crud_add lit db t add_cols inputs = add_record lit db t add_cols (map PyStr inputs)"

text \<open>
  The search box.  The script keeps \<open>row.astype(str).str.contains(search, case=False).any()\<close>:
  the frame library reads \<open>search\<close> as a regular expression and looks for a match anywhere
  in the string form of each cell, ignoring case.  The fragment of regular expressions
  modelled here: a pattern in which \<open>.\<close> stands for any character but a newline and
  every other character, none of them special, stands for itself.  A pattern that
  starts with one of the repetition signs \<open>*\<close>, \<open>+\<close>, \<open>?\<close> does not compile (there is
  nothing to repeat) and the render aborts.  A character of a string is a code point
  below 256 (ASCII and the Latin-1 supplement); ignoring case compares the lower-case
  forms of two characters.
\<close>

datatype atom = Lit char | Any_char

definition meta_chars :: "char list" where
  "meta_chars = [CHR ''.'', CHR ''^'', CHR ''$'', CHR ''*'', CHR ''+'', CHR ''?'', CHR ''{'',
                 CHR ''['', CHR 0x5C, CHR ''|'', CHR ''('', CHR '')'']"

definition compile_atom :: "char \<Rightarrow> atom option" where
  "compile_atom c =
     (if c = CHR ''.'' then Some Any_char
      else if c \<in> set meta_chars then None
      else Some (Lit c))"

definition re_compile :: "string \<Rightarrow> fault + atom list" where
  "re_compile s =
     (if s \<noteq> [] \<and> hd s \<in> set [CHR ''*'', CHR ''+'', CHR ''?''] then Inl Re_error
      else
        (case those (map compile_atom s) of
           None \<Rightarrow> Inl Pattern_not_modelled
         | Some p \<Rightarrow> Inr p))"

definition is_upper :: "nat \<Rightarrow> bool" where
  "is_upper n \<longleftrightarrow> (65 \<le> n \<and> n \<le> 90) \<or> (192 \<le> n \<and> n \<le> 222 \<and> n \<noteq> 215)"

definition to_lower :: "char \<Rightarrow> char" where
  "to_lower c = (if is_upper (of_char c) then char_of ((of_char c :: nat) + 32) else c)"

fun atom_matches :: "atom \<Rightarrow> char \<Rightarrow> bool" where
  "atom_matches (Lit a) c = (to_lower a = to_lower c)"
| "atom_matches Any_char c = (c \<noteq> CHR 0x0A)"

fun match_here :: "atom list \<Rightarrow> string \<Rightarrow> bool" where
  "match_here [] s = True"
| "match_here (a # as) [] = False"
| "match_here (a # as) (c # cs) = (atom_matches a c \<and> match_here as cs)"

fun re_search :: "atom list \<Rightarrow> string \<Rightarrow> bool" where
  "re_search p [] = match_here p []"
| "re_search p (c # cs) = (match_here p (c # cs) \<or> re_search p cs)"

text \<open>
  The string form of a row's cells.  In a frame that holds only integers and texts an
  integer is written in decimal and a text is itself.  Where the frame holds a NULL or
  a REAL cell the frame library switches columns or rows to floating point, and the
  string forms are those of floating-point numbers: they are the parameter \<open>flt\<close>.
\<close>

fun py_str :: "cell \<Rightarrow> string option" where
  "py_str (SInteger n) = Some (str_int n)"
| "py_str (SText s) = Some s"
| "py_str SNull = None"
| "py_str (SReal x) = None"

definition plain_frame :: "frame \<Rightarrow> bool" where
  "plain_frame df \<longleftrightarrow> list_all (list_all (\<lambda>c. py_str c \<noteq> None)) (data df)"

definition astype_str :: "(frame \<Rightarrow> cell list \<Rightarrow> string list) \<Rightarrow> frame \<Rightarrow> cell list \<Rightarrow> string list" where
  "astype_str flt df r =
     (case (if plain_frame df then those (map py_str r) else None) of
        Some ss \<Rightarrow> ss
      | None \<Rightarrow> flt df r)"

text \<open>
  The view shows the frame, filtered when the search box is not empty.  \<open>crud_search\<close>
  returns the rows that the view shows, in order.
\<close>

definition crud_search ::
  "(frame \<Rightarrow> cell list \<Rightarrow> string list) \<Rightarrow> store \<Rightarrow> string \<Rightarrow> string \<Rightarrow> fault + cell list list" where
  "crud_search flt db t search =
     (case get_df db t of
        Inl e \<Rightarrow> Inl e
      | Inr df \<Rightarrow>
          if search = [] then Inr (data df)
          else
            (case re_compile search of
               Inl e \<Rightarrow> Inl e
             | Inr p \<Rightarrow>
                 Inr (filter (\<lambda>r. list_ex (re_search p) (astype_str flt df r)) (data df))))"

text \<open>The delete button, once confirmed, calls \<open>delete_record(table, record_id)\<close>.\<close>

definition crud_delete :: "store \<Rightarrow> string \<Rightarrow> int \<Rightarrow> fault + store" where
  "crud_delete db t record_id = delete_record db t record_id"

text \<open>\<open>UPDATE table SET field=? WHERE id=?\<close> with the parameters \<open>(value, record_id)\<close>.\<close>

fun column_index :: "string \<Rightarrow> (string \<times> affinity) list \<Rightarrow> nat option" where
  "column_index f [] = None"
| "column_index f ((c, a) # sch) = (if f = c then Some 0 else map_option Suc (column_index f sch))"

definition write_cell :: "nat \<Rightarrow> cell \<Rightarrow> int \<Rightarrow> row \<Rightarrow> row" where
  "write_cell k v id_val r = (if rid r = id_val then r\<lparr>cells := (cells r)[k := v]\<rparr> else r)"

definition update_field ::
  "(string \<Rightarrow> cell option) \<Rightarrow> store \<Rightarrow> string \<Rightarrow> string \<Rightarrow> pyval \<Rightarrow> int \<Rightarrow> fault + store" where
  "update_field lit db t field v id_val =
     (case db t of
        None \<Rightarrow> Inl No_such_table
      | Some T \<Rightarrow>
          if field = ''id'' then Inl Primary_key_write
          else
            (case column_index field (schema T) of
               None \<Rightarrow> Inl No_such_column
             | Some k \<Rightarrow>
                 if \<not> (bindable v \<and> int64 id_val) then Inl Overflow_error
                 else Inr (db(t \<mapsto> T\<lparr>rows :=
                        map (write_cell k (apply_affinity lit (snd (schema T ! k)) v) id_val) (rows T)\<rparr>))))"

text \<open>
  The update button: \<open>for field, value in zip(fields, updates): if value: execute(...)\<close>,
  one statement per field with a non-empty text, in the order of the fields.
\<close>

fun update_loop ::
  "(string \<Rightarrow> cell option) \<Rightarrow> store \<Rightarrow> string \<Rightarrow> (string \<times> string) list \<Rightarrow> int \<Rightarrow> fault + store" where
  "update_loop lit db t [] record_id = Inr db"
| "update_loop lit db t ((field, v) # fvs) record_id =
     (if v \<noteq> [] then
        (case update_field lit db t field (PyStr v) record_id of
           Inl e \<Rightarrow> Inl e
         | Inr db' \<Rightarrow> update_loop lit db' t fvs record_id)
      else update_loop lit db t fvs record_id)"

definition crud_update ::
  "(string \<Rightarrow> cell option) \<Rightarrow> store \<Rightarrow> string \<Rightarrow> string list \<Rightarrow> string list \<Rightarrow> int \<Rightarrow> fault + store" where
  "crud_update lit db t flds updates record_id = update_loop lit db t (zip flds updates) record_id"

subsection \<open>The dashboard\<close>

definition len_df :: "frame \<Rightarrow> int" where
  "len_df df = int (length (data df))"

definition empty_df :: "frame \<Rightarrow> bool" where
  "empty_df df \<longleftrightarrow> data df = [] \<or> columns df = []"

fun name_index :: "string \<Rightarrow> string list \<Rightarrow> nat option" where
  "name_index f [] = None"
| "name_index f (c # cs) = (if f = c then Some 0 else map_option Suc (name_index f cs))"

definition get_column :: "frame \<Rightarrow> string \<Rightarrow> fault + cell list" where
  "get_column df name =
     (case name_index name (columns df) of
        None \<Rightarrow> Inl Key_error
      | Some k \<Rightarrow> Inr (map (\<lambda>r. r ! k) (data df)))"

text \<open>
  The sum of a column.  A column of integers is held as 64-bit integers and summed with
  wrap-around.  A column that mixes integers and texts makes the sum fail with a type
  error.  Any other column (one holding NULL or REAL cells, or texts only) is summed
  by the frame library in floating point or by concatenation: the parameter \<open>fsum\<close>.
\<close>

definition wrap64 :: "int \<Rightarrow> int" where
  "wrap64 n = (n + 2 ^ 63) mod 2 ^ 64 - 2 ^ 63"

fun the_int :: "cell \<Rightarrow> int option" where
  "the_int (SInteger n) = Some n"
| "the_int c = None"

fun is_text :: "cell \<Rightarrow> bool" where
  "is_text (SText s) = True"
| "is_text c = False"

definition column_sum :: "(cell list \<Rightarrow> fault + cell) \<Rightarrow> cell list \<Rightarrow> fault + cell" where
  "column_sum fsum cs =
     (case those (map the_int cs) of
        Some ns \<Rightarrow> Inr (SInteger (wrap64 (sum_list ns)))
      | None \<Rightarrow>
          if list_all (\<lambda>c. the_int c \<noteq> None \<or> is_text c) cs \<and> list_ex (\<lambda>c. the_int c \<noteq> None) cs
          then Inl Type_error
          else fsum cs)"

definition count_rows :: "store \<Rightarrow> string \<Rightarrow> fault + cell" where
  "count_rows db t = (case get_df db t of Inl e \<Rightarrow> Inl e | Inr df \<Rightarrow> Inr (SInteger (len_df df)))"

definition total_students :: "store \<Rightarrow> fault + cell" where
  "total_students db = count_rows db ''students''"

definition total_teachers :: "store \<Rightarrow> fault + cell" where
  "total_teachers db = count_rows db ''teachers''"

definition books_issued :: "store \<Rightarrow> fault + cell" where
  "books_issued db = count_rows db ''library''"

text \<open>\<open>get_df('fees')['paid'].sum() if not get_df('fees').empty else 0\<close>\<close>

definition total_fees_paid :: "(cell list \<Rightarrow> fault + cell) \<Rightarrow> store \<Rightarrow> fault + cell" where
  "total_fees_paid fsum db =
     (case get_df db ''fees'' of
        Inl e \<Rightarrow> Inl e
      | Inr df0 \<Rightarrow>
          if empty_df df0 then Inr (SInteger 0)
          else
            (case get_df db ''fees'' of
               Inl e \<Rightarrow> Inl e
             | Inr df \<Rightarrow>
                 (case get_column df ''paid'' of
                    Inl e \<Rightarrow> Inl e
                  | Inr cs \<Rightarrow> column_sum fsum cs)))"

text \<open>The four metrics are computed in this order; a fault in one aborts the render.\<close>

definition dashboard :: "(cell list \<Rightarrow> fault + cell) \<Rightarrow> store \<Rightarrow> fault + (string \<times> cell) list" where
  "dashboard fsum db =
     (case total_students db of Inl e \<Rightarrow> Inl e | Inr s \<Rightarrow>
     (case total_teachers db of Inl e \<Rightarrow> Inl e | Inr t \<Rightarrow>
     (case books_issued db of Inl e \<Rightarrow> Inl e | Inr b \<Rightarrow>
     (case total_fees_paid fsum db of Inl e \<Rightarrow> Inl e | Inr p \<Rightarrow>
        Inr [(''Total Students'', s), (''Total Teachers'', t),
             (''Books Issued'', b), (''Total Fees Paid'', p)]))))"

subsection \<open>The module router\<close>

text \<open>
  The seven entity modules and the arguments with which the router calls \<open>crud_module\<close>
  for each: the table, the \<open>fields\<close> (update panel) and the \<open>add_cols\<close> (add panel).
\<close>

datatype module = Students | Teachers | Attendance | Fees | Exams | Library | Timetable

fun module_table :: "module \<Rightarrow> string" where
  "module_table Students = ''students''"
| "module_table Teachers = ''teachers''"
| "module_table Attendance = ''attendance''"
| "module_table Fees = ''fees''"
| "module_table Exams = ''exams''"
| "module_table Library = ''library''"
| "module_table Timetable = ''timetable''"

fun module_fields :: "module \<Rightarrow> string list" where
  "module_fields Students = [''name'', ''class'', ''age'']"
| "module_fields Teachers = [''name'', ''subject'']"
| "module_fields Attendance = [''student_id'', ''date'', ''status'']"
| "module_fields Fees = [''student_id'', ''amount'', ''paid'']"
| "module_fields Exams = [''student_id'', ''subject'', ''marks'']"
| "module_fields Library = [''book'', ''student_id'', ''issue_date'']"
| "module_fields Timetable = [''class'', ''day'', ''subject'', ''teacher'']"

fun module_add_cols :: "module \<Rightarrow> string list" where
  "module_add_cols Students = [''name'', ''class'', ''age'']"
| "module_add_cols Teachers = [''name'', ''subject'']"
| "module_add_cols Attendance = [''student_id'', ''date'', ''status'']"
| "module_add_cols Fees = [''student_id'', ''amount'', ''paid'']"
| "module_add_cols Exams = [''student_id'', ''subject'', ''marks'']"
| "module_add_cols Library = [''book'', ''student_id'', ''issue_date'']"
| "module_add_cols Timetable = [''class'', ''day'', ''subject'', ''teacher'']"

definition modules :: "module list" where
  "modules = [Students, Teachers, Attendance, Fees, Exams, Library, Timetable]"

text \<open>
  The attendance module's own action: the student identifier of a number input, the
  current date as text and the status chosen among \<open>Present\<close> and \<open>Absent\<close>.
\<close>

datatype status = Present | Absent

fun status_str :: "status \<Rightarrow> string" where
  "status_str Present = ''Present''"
| "status_str Absent = ''Absent''"

definition mark_attendance ::
  "(string \<Rightarrow> cell option) \<Rightarrow> store \<Rightarrow> int \<Rightarrow> string \<Rightarrow> status \<Rightarrow> fault + store" where
  "mark_attendance lit db student_id today st =
     add_record lit db ''attendance'' [''student_id'', ''date'', ''status'']
       [PyInt student_id, PyStr today, PyStr (status_str st)]"

text \<open>
  The writes a user can trigger, and a session as a list of them.  The first fault ends
  the session, as the uncaught exception ends the render.
\<close>

datatype action =
    Add_record module "string list"
  | Update_record module int "string list"
  | Delete_record module int
  | Mark_attendance int string status

fun perform :: "(string \<Rightarrow> cell option) \<Rightarrow> store \<Rightarrow> action \<Rightarrow> fault + store" where
  "perform lit db (Add_record m inputs) = crud_add lit db (module_table m) (module_add_cols m) inputs"
| "perform lit db (Update_record m record_id updates) =
     crud_update lit db (module_table m) (module_fields m) updates record_id"
| "perform lit db (Delete_record m record_id) = crud_delete db (module_table m) record_id"
| "perform lit db (Mark_attendance student_id today st) = mark_attendance lit db student_id today st"

fun session :: "(string \<Rightarrow> cell option) \<Rightarrow> store \<Rightarrow> action list \<Rightarrow> fault + store" where
  "session lit db [] = Inr db"
| "session lit db (a # as) =
     (case perform lit db a of Inl e \<Rightarrow> Inl e | Inr db' \<Rightarrow> session lit db' as)"

subsection \<open>What the engine guarantees of a table\<close>

text \<open>
  A table is kept in the order of its row identifiers, which are the primary key and so
  never repeat; every row has one cell per declared column; the declared columns have
  distinct names, none of them \<open>id\<close>.
\<close>

definition table_inv :: "table \<Rightarrow> bool" where
  "table_inv T \<longleftrightarrow>
     sorted_wrt (<) (map rid (rows T)) \<and>
     list_all (\<lambda>r. length (cells r) = length (schema T)) (rows T) \<and>
     distinct (map fst (schema T)) \<and>
     ''id'' \<notin> set (map fst (schema T))"

subsection \<open>What the frame library keeps of a column\<close>




subsection \<open>A store with some records, for the examples\<close>

definition demo_students :: table where
  "demo_students =
     \<lparr>schema = [(''name'', TEXT), (''class'', TEXT), (''age'', INTEGER)],
      rows = [\<lparr>rid = 1, cells = [SText ''Aisha'', SText ''5A'', SInteger 10]\<rparr>,
              \<lparr>rid = 2, cells = [SText ''Bilal'', SText ''6B'', SInteger 11]\<rparr>]\<rparr>"

definition demo_attendance :: table where
  "demo_attendance =
     \<lparr>schema = [(''student_id'', INTEGER), (''date'', TEXT), (''status'', TEXT)],
      rows = [\<lparr>rid = 1, cells = [SInteger 1, SText ''2024-03-01'', SText ''Present'']\<rparr>]\<rparr>"

definition demo_fees :: table where
  "demo_fees =
     \<lparr>schema = [(''student_id'', INTEGER), (''amount'', REAL), (''paid'', INTEGER)],
      rows = [\<lparr>rid = 1, cells = [SInteger 1, SReal 500, SInteger 1]\<rparr>,
              \<lparr>rid = 2, cells = [SInteger 2, SReal 300, SInteger 0]\<rparr>]\<rparr>"

definition demo_store :: store where
  "demo_store = fresh_store(''students'' \<mapsto> demo_students, ''attendance'' \<mapsto> demo_attendance,
                            ''fees'' \<mapsto> demo_fees)"

text \<open>
  Two fees tables that the add panel can produce: one in which a \<open>paid\<close> entry was typed
  as a word, one in which a \<open>paid\<close> entry is the largest 64-bit integer.
\<close>

definition big_fees :: table where
  "big_fees =
     \<lparr>schema = [(''student_id'', INTEGER), (''amount'', REAL), (''paid'', INTEGER)],
      rows = [\<lparr>rid = 1, cells = [SInteger 1, SReal 500, SInteger 9223372036854775807]\<rparr>,
              \<lparr>rid = 2, cells = [SInteger 2, SReal 300, SInteger 1]\<rparr>]\<rparr>"

definition text_fees :: table where
  "text_fees =
     \<lparr>schema = [(''student_id'', INTEGER), (''amount'', REAL), (''paid'', INTEGER)],
      rows = [\<lparr>rid = 1, cells = [SInteger 1, SReal 500, SInteger 1]\<rparr>,
              \<lparr>rid = 2, cells = [SInteger 2, SReal 300, SText ''yes'']\<rparr>]\<rparr>"

subsection \<open>The update, as the specification words it\<close>




subsection \<open>The search, as the specification words it\<close>

text \<open>
  \<open>contains_ci q s\<close>: the text \<open>s\<close> contains the query \<open>q\<close> as a substring when letter case
  is ignored.  A plain character is one that means itself in a regular expression.
\<close>

definition plain_char :: "char \<Rightarrow> bool" where
  "plain_char c \<longleftrightarrow> c \<notin> set meta_chars"

definition contains_ci :: "string \<Rightarrow> string \<Rightarrow> bool" where
  "contains_ci q s \<longleftrightarrow> sublist (map to_lower q) (map to_lower s)"

text \<open>A session on a fresh store: two students added, one deleted, one added, one updated.\<close>

definition demo_session :: "action list" where
  "demo_session =
     [Add_record Students [''Aisha'', ''5A'', ''10''],
      Add_record Students [''Bilal'', ''6B'', ''11''],
      Delete_record Students 2,
      Add_record Students [''Zara'', ''7C'', ''12''],
      Update_record Students 1 [[], ''6A'', []]]"

section \<open>Properties\<close>

subsection \<open>Integers as doubles\<close>

lemma bits_le: "n < 2 ^ k \<Longrightarrow> bits n \<le> k"
proof (induction k arbitrary: n)
  case 0
  then show ?case by (simp add: bits.simps)
next
  case (Suc k)
  show ?case
  proof (cases "n = 0")
    case True
    then show ?thesis by (simp add: bits.simps)
  next
    case False
    from Suc.prems have "n div 2 < 2 ^ k" by simp
    then have "bits (n div 2) \<le> k" by (rule Suc.IH)
    with False show ?thesis by (subst bits.simps) simp
  qed
qed

lemma to_double_small: "\<bar>n\<bar> < 2 ^ 53 \<Longrightarrow> to_double n = of_int n"
proof -
  assume small: "\<bar>n\<bar> < 2 ^ 53"
  then have "nat \<bar>n\<bar> < 2 ^ 53" by (simp add: nat_less_iff)
  then have "bits (nat \<bar>n\<bar>) - 53 = 0" using bits_le by fastforce
  then have "to_double n = of_int (sgn n * int (nat \<bar>n\<bar>))"
    by (simp add: to_double_def)
  also have "sgn n * int (nat \<bar>n\<bar>) = n" by (simp add: mult_sgn_abs)
  finally show ?thesis .
qed

subsection \<open>Row identifiers\<close>

lemma fold_max_ge: "a \<le> fold (\<lambda>r m. max (rid r) m) rs a"
proof (induction rs arbitrary: a)
  case Nil
  then show ?case by simp
next
  case (Cons x xs)
  have "a \<le> max (rid x) a" by simp
  also have "\<dots> \<le> fold (\<lambda>r m. max (rid r) m) xs (max (rid x) a)" by (rule Cons.IH)
  finally show ?case by simp
qed

lemma fold_max_bound: "r \<in> set rs \<Longrightarrow> rid r \<le> fold (\<lambda>r m. max (rid r) m) rs a"
proof (induction rs arbitrary: a)
  case Nil
  then show ?case by simp
next
  case (Cons x xs)
  show ?case
  proof (cases "r = x")
    case True
    have "rid x \<le> max (rid x) a" by simp
    also have "\<dots> \<le> fold (\<lambda>r m. max (rid r) m) xs (max (rid x) a)" by (rule fold_max_ge)
    finally show ?thesis using True by simp
  next
    case False
    with Cons.prems have "r \<in> set xs" by simp
    then show ?thesis using Cons.IH by simp
  qed
qed

lemma max_rowid_bound: "r \<in> set rs \<Longrightarrow> rid r \<le> max_rowid rs"
  unfolding max_rowid_def by (rule fold_max_bound)

lemma new_rowid_above: "new_rowid rs = Inr i \<Longrightarrow> r \<in> set rs \<Longrightarrow> rid r < i"
  using max_rowid_bound [of r rs] by (auto simp: new_rowid_def split: if_splits)

lemma sorted_rid_distinct: "sorted_wrt (<) (map rid rs) \<Longrightarrow> distinct (map rid rs)"
  by (induction rs) auto

lemma distinct_rid_filter_le1: "distinct (map rid rs) \<Longrightarrow> length (filter (\<lambda>r. rid r = i) rs) \<le> 1"
  by (induction rs) (auto simp: filter_empty_conv image_iff)

lemma filter_absent: "i \<notin> rid ` set rs \<Longrightarrow> filter (\<lambda>r. rid r \<noteq> i) rs = rs"
  by (induction rs) auto

lemma filter_present:
  "distinct (map rid rs) \<Longrightarrow> i \<in> rid ` set rs \<Longrightarrow>
   \<exists>pre r post. rs = pre @ r # post \<and> rid r = i \<and> filter (\<lambda>r. rid r \<noteq> i) rs = pre @ post"
proof -
  assume d: "distinct (map rid rs)" and "i \<in> rid ` set rs"
  then obtain r where "r \<in> set rs" "rid r = i" by auto
  then obtain pre post where rs: "rs = pre @ r # post" by (auto simp: in_set_conv_decomp)
  from d rs \<open>rid r = i\<close> have "i \<notin> rid ` set pre" "i \<notin> rid ` set post" by auto
  then have "filter (\<lambda>r. rid r \<noteq> i) pre = pre" "filter (\<lambda>r. rid r \<noteq> i) post = post"
    by (simp_all add: filter_absent)
  with rs \<open>rid r = i\<close> show ?thesis by auto
qed

lemma table_inv_demo_students: "table_inv demo_students"
  by (simp add: table_inv_def demo_students_def)

subsection \<open>Deleting by identifier\<close>

text \<open>
  Claim C4.  In a table of the store, \<open>delete_record\<close> with a 64-bit identifier returns
  without a fault and removes exactly the rows whose \<open>id\<close> is that identifier, of which
  there is at most one: the table was \<open>pre @ r # post\<close> with \<open>r\<close> the row of that identifier
  and becomes \<open>pre @ post\<close>.  When no row has the identifier, the store is returned as it
  was: zero rows are affected and the row count is the same.
\<close>

theorem delete_record_at_most_one:
  assumes "db t = Some T" and "table_inv T" and "int64 id_val"
  shows "delete_record db t id_val =
           Inr (db(t \<mapsto> T\<lparr>rows := filter (\<lambda>r. rid r \<noteq> id_val) (rows T)\<rparr>)) \<and>
         length (filter (\<lambda>r. rid r = id_val) (rows T)) \<le> 1 \<and>
         length (rows T) =
           length (filter (\<lambda>r. rid r \<noteq> id_val) (rows T)) + length (filter (\<lambda>r. rid r = id_val) (rows T)) \<and>
         (id_val \<in> rid ` set (rows T) \<longrightarrow>
            (\<exists>pre r post. rows T = pre @ r # post \<and> rid r = id_val \<and>
               filter (\<lambda>r. rid r \<noteq> id_val) (rows T) = pre @ post)) \<and>
         (id_val \<notin> rid ` set (rows T) \<longrightarrow>
            delete_record db t id_val = Inr db \<and> filter (\<lambda>r. rid r \<noteq> id_val) (rows T) = rows T)"
proof -
  from assms(2) have d: "distinct (map rid (rows T))"
    by (simp add: table_inv_def sorted_rid_distinct)
  have run: "delete_record db t id_val =
      Inr (db(t \<mapsto> T\<lparr>rows := filter (\<lambda>r. rid r \<noteq> id_val) (rows T)\<rparr>))"
    using assms(1,3) by (simp add: delete_record_def)
  have one: "length (filter (\<lambda>r. rid r = id_val) (rows T)) \<le> 1"
    using d by (rule distinct_rid_filter_le1)
  have count: "length (rows T) =
      length (filter (\<lambda>r. rid r \<noteq> id_val) (rows T)) + length (filter (\<lambda>r. rid r = id_val) (rows T))"
    using sum_length_filter_compl [of "\<lambda>r. rid r = id_val" "rows T"] by simp
  have present: "id_val \<in> rid ` set (rows T) \<longrightarrow>
      (\<exists>pre r post. rows T = pre @ r # post \<and> rid r = id_val \<and>
         filter (\<lambda>r. rid r \<noteq> id_val) (rows T) = pre @ post)"
    using filter_present [OF d] by simp
  have same: "filter (\<lambda>r. rid r \<noteq> id_val) (rows T) = rows T" if "id_val \<notin> rid ` set (rows T)"
    using that by (rule filter_absent)
  have noop: "delete_record db t id_val = Inr db" if "id_val \<notin> rid ` set (rows T)"
  proof -
    have "db(t \<mapsto> T\<lparr>rows := rows T\<rparr>) = db" using assms(1) by (auto simp: fun_eq_iff)
    with run same [OF that] show ?thesis by simp
  qed
  show ?thesis using run one count present same noop by blast
qed

theorem delete_record_at_most_one_witness:
  "demo_store ''students'' = Some demo_students \<and> table_inv demo_students \<and> int64 2 \<and> int64 7 \<and>
   delete_record demo_store ''students'' 2 =
     Inr (demo_store(''students'' \<mapsto>
       demo_students\<lparr>rows := [\<lparr>rid = 1, cells = [SText ''Aisha'', SText ''5A'', SInteger 10]\<rparr>]\<rparr>)) \<and>
   delete_record demo_store ''students'' 7 = Inr (demo_store(''students'' \<mapsto> demo_students))"
proof -
  have h1: "demo_store ''students'' = Some demo_students" by (simp add: demo_store_def)
  have h2: "table_inv demo_students" by (rule table_inv_demo_students)
  have h3: "int64 2" and h4: "int64 7" by (simp_all add: int64_def)
  from delete_record_at_most_one [of demo_store "''students''" demo_students 2, OF h1 h2 h3]
    delete_record_at_most_one [of demo_store "''students''" demo_students 7, OF h1 h2 h4]
  show ?thesis using h1 h2 h3 h4
    by (simp add: demo_students_def)
qed

subsection \<open>Inserting a record\<close>

lemma fresh_store_students:
  "fresh_store ''students'' = Some \<lparr>schema = [(''name'', TEXT), (''class'', TEXT), (''age'', INTEGER)], rows = []\<rparr>"
  by (simp add: fresh_store_def create_tables_def tables_def create_table_def)

lemma fresh_store_fees:
  "fresh_store ''fees'' = Some \<lparr>schema = [(''student_id'', INTEGER), (''amount'', REAL), (''paid'', INTEGER)], rows = []\<rparr>"
  by (simp add: fresh_store_def create_tables_def tables_def create_table_def)

lemma new_rowid_total:
  "rs = [] \<or> max_rowid rs < 2 ^ 63 - 1 \<Longrightarrow> \<exists>i. new_rowid rs = Inr i"
  by (auto simp: new_rowid_def)

lemma map_of_zip_nth':
  "distinct cols \<Longrightarrow> length vals = length cols \<Longrightarrow> k < length cols \<Longrightarrow>
   map_of (zip cols vals) (cols ! k) = Some (vals ! k)"
  by (simp add: map_of_zip_nth)


lemma add_record_run:
  assumes "db t = Some T" and "''id'' \<notin> set cols" and "set cols \<subseteq> fst ` set (schema T)"
    and "length vals = length cols" and "list_all bindable vals" and "new_rowid (rows T) = Inr i"
    and "cols \<noteq> []"
  shows "add_record lit db t cols vals =
     Inr (db(t \<mapsto> T\<lparr>rows := rows T @ [\<lparr>rid = i, cells = inserted_cells lit (schema T) cols vals\<rparr>]\<rparr>))"
proof -
  from assms(4,7) have "vals \<noteq> []" by auto
  with assms show ?thesis by (simp add: add_record_def)
qed



lemma plain_decimal_10: "plain_decimal ''10'' = Some 10"
  by (simp add: plain_decimal_def is_digit_def digits_value_def int64_def)


lemma demo_store_students: "demo_store ''students'' = Some demo_students"
  by (simp add: demo_store_def)

lemma demo_store_attendance: "demo_store ''attendance'' = Some demo_attendance"
  by (simp add: demo_store_def)








subsection \<open>Deleting a student\<close>

lemma get_df_other: "t' \<noteq> t \<Longrightarrow> get_df (db(t \<mapsto> T)) t' = get_df db t'"
  by (simp add: get_df_def)

text \<open>
  Claim C9.  \<open>delete_record\<close> on the students table returns without a fault and leaves
  every other table of the store as it was; in particular \<open>get_df\<close> yields the same
  frames for attendance, fees, exams and library, whatever their \<open>student_id\<close> cells
  hold.  Nothing is cascaded and nothing is checked: a row that names the deleted
  student stays.
\<close>

theorem delete_student_keeps_dependents:
  assumes "db ''students'' = Some T" and "int64 id_val"
  shows "\<exists>db'. delete_record db ''students'' id_val = Inr db' \<and>
           (\<forall>t. t \<noteq> ''students'' \<longrightarrow> db' t = db t) \<and>
           get_df db' ''attendance'' = get_df db ''attendance'' \<and>
           get_df db' ''fees'' = get_df db ''fees'' \<and>
           get_df db' ''exams'' = get_df db ''exams'' \<and>
           get_df db' ''library'' = get_df db ''library''"
proof -
  let ?db' = "db(''students'' \<mapsto> T\<lparr>rows := filter (\<lambda>r. rid r \<noteq> id_val) (rows T)\<rparr>)"
  have "delete_record db ''students'' id_val = Inr ?db'"
    using assms by (simp add: delete_record_def)
  moreover have "\<forall>t. t \<noteq> ''students'' \<longrightarrow> ?db' t = db t" by simp
  moreover have "get_df ?db' ''attendance'' = get_df db ''attendance''"
    "get_df ?db' ''fees'' = get_df db ''fees''"
    "get_df ?db' ''exams'' = get_df db ''exams''"
    "get_df ?db' ''library'' = get_df db ''library''"
    by (simp_all add: get_df_other)
  ultimately show ?thesis by blast
qed

theorem delete_student_keeps_dependents_witness:
  "demo_store ''students'' = Some demo_students \<and> int64 1 \<and>
   (\<exists>db'. delete_record demo_store ''students'' 1 = Inr db' \<and>
      db' ''students'' = Some (demo_students\<lparr>rows := [\<lparr>rid = 2, cells = [SText ''Bilal'', SText ''6B'', SInteger 11]\<rparr>]\<rparr>) \<and>
      get_df db' ''attendance'' =
        Inr \<lparr>columns = [''id'', ''student_id'', ''date'', ''status''],
             data = [[SInteger 1, SInteger 1, SText ''2024-03-01'', SText ''Present'']]\<rparr> \<and>
      get_df db' ''fees'' = get_df demo_store ''fees'')"
proof -
  have h1: "demo_store ''students'' = Some demo_students" by (rule demo_store_students)
  have h2: "int64 1" by (simp add: int64_def)
  have a: "get_df demo_store ''attendance'' =
        Inr \<lparr>columns = [''id'', ''student_id'', ''date'', ''status''],
             data = [[SInteger 1, SInteger 1, SText ''2024-03-01'', SText ''Present'']]\<rparr>"
    by (simp add: get_df_def demo_store_attendance demo_attendance_def row_cells_def)
  have d: "delete_record demo_store ''students'' 1 =
      Inr (demo_store(''students'' \<mapsto> demo_students\<lparr>rows := [\<lparr>rid = 2, cells = [SText ''Bilal'', SText ''6B'', SInteger 11]\<rparr>]\<rparr>))"
    by (simp add: delete_record_def h1 h2) (simp add: demo_students_def)
  from delete_student_keeps_dependents [where db = demo_store, OF h1 h2]
  show ?thesis using h1 h2 a d by auto
qed

subsection \<open>The dashboard after adding a student\<close>

lemma count_rows_other: "t' \<noteq> t \<Longrightarrow> count_rows (db(t \<mapsto> T)) t' = count_rows db t'"
  by (simp add: count_rows_def get_df_other)

lemma total_fees_paid_other:
  "t \<noteq> ''fees'' \<Longrightarrow> total_fees_paid fsum (db(t \<mapsto> T)) = total_fees_paid fsum db"
proof -
  assume "t \<noteq> ''fees''"
  then have eq: "get_df (db(t \<mapsto> T)) ''fees'' = get_df db ''fees''"
    by (simp add: get_df_other)
  show ?thesis unfolding total_fees_paid_def eq by (rule refl)
qed

lemma fresh_store_teachers:
  "fresh_store ''teachers'' = Some \<lparr>schema = [(''name'', TEXT), (''subject'', TEXT)], rows = []\<rparr>"
  by (simp add: fresh_store_def create_tables_def tables_def create_table_def)

lemma fresh_store_library:
  "fresh_store ''library'' =
     Some \<lparr>schema = [(''book'', TEXT), (''student_id'', INTEGER), (''issue_date'', TEXT)], rows = []\<rparr>"
  by (simp add: fresh_store_def create_tables_def tables_def create_table_def)

lemma dashboard_fresh_store:
  "dashboard fsum fresh_store =
     Inr [(''Total Students'', SInteger 0), (''Total Teachers'', SInteger 0),
          (''Books Issued'', SInteger 0), (''Total Fees Paid'', SInteger 0)]"
  by (simp add: dashboard_def total_students_def total_teachers_def books_issued_def
      total_fees_paid_def count_rows_def get_df_def len_df_def empty_df_def
      fresh_store_students fresh_store_teachers fresh_store_library fresh_store_fees)

text \<open>
  Claim C6.  Adding one student through the students module (one text per field)
  returns without a fault; the students count goes from the number of rows to that
  number plus one, and the three other metrics (teachers, books issued, fees paid) are
  what they were, whether they are values or faults.  When the dashboard rendered
  before, it renders after with the first metric one higher and the others equal.
\<close>

theorem add_student_dashboard:
  assumes "db ''students'' = Some T"
    and "schema T = [(''name'', TEXT), (''class'', TEXT), (''age'', INTEGER)]"
    and "length inputs = 3"
    and "rows T = [] \<or> max_rowid (rows T) < 2 ^ 63 - 1"
  shows "\<exists>db'. perform lit db (Add_record Students inputs) = Inr db' \<and>
           total_students db = Inr (SInteger (int (length (rows T)))) \<and>
           total_students db' = Inr (SInteger (int (length (rows T)) + 1)) \<and>
           total_teachers db' = total_teachers db \<and>
           books_issued db' = books_issued db \<and>
           total_fees_paid fsum db' = total_fees_paid fsum db \<and>
           (\<forall>n t b p. dashboard fsum db =
                Inr [(''Total Students'', SInteger n), (''Total Teachers'', t), (''Books Issued'', b), (''Total Fees Paid'', p)] \<longrightarrow>
              dashboard fsum db' =
                Inr [(''Total Students'', SInteger (n + 1)), (''Total Teachers'', t), (''Books Issued'', b), (''Total Fees Paid'', p)])"
proof -
  from assms(4) obtain i where i: "new_rowid (rows T) = Inr i"
    using new_rowid_total by blast
  let ?cols = "[''name'', ''class'', ''age'']"
  let ?T' = "T\<lparr>rows := rows T @ [\<lparr>rid = i, cells = inserted_cells lit (schema T) ?cols (map PyStr inputs)\<rparr>]\<rparr>"
  let ?db' = "db(''students'' \<mapsto> ?T')"
  have "add_record lit db ''students'' ?cols (map PyStr inputs) = Inr ?db'"
    using assms(1) _ _ _ _ i by (rule add_record_run) (simp_all add: assms(2,3) list_all_iff)
  then have run: "perform lit db (Add_record Students inputs) = Inr ?db'"
    by (simp add: crud_add_def)
  have s0: "total_students db = Inr (SInteger (int (length (rows T))))"
    by (simp add: total_students_def count_rows_def get_df_def assms(1) len_df_def)
  have s1: "total_students ?db' = Inr (SInteger (int (length (rows T)) + 1))"
    by (simp add: total_students_def count_rows_def get_df_def len_df_def)
  have t: "total_teachers ?db' = total_teachers db"
    by (simp add: total_teachers_def count_rows_other)
  have b: "books_issued ?db' = books_issued db"
    by (simp add: books_issued_def count_rows_other)
  have p: "total_fees_paid fsum ?db' = total_fees_paid fsum db"
    by (simp add: total_fees_paid_other)
  have d: "\<forall>n t b p. dashboard fsum db =
                Inr [(''Total Students'', SInteger n), (''Total Teachers'', t), (''Books Issued'', b), (''Total Fees Paid'', p)] \<longrightarrow>
              dashboard fsum ?db' =
                Inr [(''Total Students'', SInteger (n + 1)), (''Total Teachers'', t), (''Books Issued'', b), (''Total Fees Paid'', p)]"
    unfolding dashboard_def s0 s1 t b p by (auto split: sum.splits)
  show ?thesis using run s0 s1 t b p d by blast
qed

theorem add_student_dashboard_witness:
  "fresh_store ''students'' =
     Some \<lparr>schema = [(''name'', TEXT), (''class'', TEXT), (''age'', INTEGER)], rows = []\<rparr> \<and>
   length [''Aisha'', ''5A'', ''10''] = 3 \<and>
   (\<exists>db'. perform (\<lambda>s. None) fresh_store (Add_record Students [''Aisha'', ''5A'', ''10'']) = Inr db' \<and>
      dashboard (\<lambda>cs. Inr SNull) fresh_store =
        Inr [(''Total Students'', SInteger 0), (''Total Teachers'', SInteger 0),
             (''Books Issued'', SInteger 0), (''Total Fees Paid'', SInteger 0)] \<and>
      dashboard (\<lambda>cs. Inr SNull) db' =
        Inr [(''Total Students'', SInteger 1), (''Total Teachers'', SInteger 0),
             (''Books Issued'', SInteger 0), (''Total Fees Paid'', SInteger 0)])"
proof -
  let ?T = "\<lparr>schema = [(''name'', TEXT), (''class'', TEXT), (''age'', INTEGER)], rows = []\<rparr>"
  have h1: "fresh_store ''students'' = Some ?T" by (rule fresh_store_students)
  have h2: "schema ?T = [(''name'', TEXT), (''class'', TEXT), (''age'', INTEGER)]" by simp
  have h3: "length [''Aisha'', ''5A'', ''10''] = 3" by simp
  have h4: "rows ?T = [] \<or> max_rowid (rows ?T) < 2 ^ 63 - 1" by simp
  from add_student_dashboard [where db = fresh_store and lit = "\<lambda>s. None" and fsum = "\<lambda>cs. Inr SNull"
      and inputs = "[''Aisha'', ''5A'', ''10'']", OF h1 h2 h3 h4]
  obtain db' where run: "perform (\<lambda>s. None) fresh_store (Add_record Students [''Aisha'', ''5A'', ''10'']) = Inr db'"
    and step: "\<forall>n t b p. dashboard (\<lambda>cs. Inr SNull) fresh_store =
                Inr [(''Total Students'', SInteger n), (''Total Teachers'', t), (''Books Issued'', b), (''Total Fees Paid'', p)] \<longrightarrow>
              dashboard (\<lambda>cs. Inr SNull) db' =
                Inr [(''Total Students'', SInteger (n + 1)), (''Total Teachers'', t), (''Books Issued'', b), (''Total Fees Paid'', p)]"
    by blast
  from step have "dashboard (\<lambda>cs. Inr SNull) db' =
        Inr [(''Total Students'', SInteger 1), (''Total Teachers'', SInteger 0),
             (''Books Issued'', SInteger 0), (''Total Fees Paid'', SInteger 0)]"
    by (simp add: dashboard_fresh_store)
  with run h1 show ?thesis by (simp add: dashboard_fresh_store)
qed

subsection \<open>Total fees paid\<close>

lemma wrap64_id: "int64 n \<Longrightarrow> wrap64 n = n"
  by (simp add: wrap64_def int64_def)

lemma those_the_int: "those (map the_int (map SInteger ns)) = Some ns"
  by (induction ns) simp_all

lemma column_sum_integers:
  "int64 (sum_list ns) \<Longrightarrow> column_sum fsum (map SInteger ns) = Inr (SInteger (sum_list ns))"
proof -
  assume "int64 (sum_list ns)"
  then have "wrap64 (sum_list ns) = sum_list ns" by (rule wrap64_id)
  then show ?thesis
    unfolding column_sum_def those_the_int by simp
qed

lemma paid_column:
  assumes "schema T = [(''student_id'', INTEGER), (''amount'', REAL), (''paid'', INTEGER)]"
  shows "get_column \<lparr>columns = ''id'' # map fst (schema T), data = map row_cells (rows T)\<rparr> ''paid'' =
           Inr (map (\<lambda>r. cells r ! 2) (rows T))"
  by (simp add: get_column_def assms row_cells_def numeral_3_eq_3 numeral_2_eq_2)

lemma session_two_fees:
  "session (\<lambda>s. None) fresh_store
     [Add_record Fees [''1'', ''500'', ''1''], Add_record Fees [''2'', ''300'', ''0'']] =
   Inr (fresh_store(''fees'' \<mapsto> demo_fees))"
  by (simp add: crud_add_def add_record_def inserted_cells_def fresh_store_fees new_rowid_def
      max_rowid_def numeric_text_def plain_decimal_def is_digit_def digits_value_def int64_def
      demo_fees_def to_double_small)

text \<open>
  Claim C5, as the script stands.  The claim speaks of every state of the store.  The
  add panel stores whatever is typed.  After the fees \<open>(1, 500, 1)\<close> and \<open>(2, 300, yes)\<close> the
  \<open>paid\<close> column holds the integer 1 and the text \<open>yes\<close>, and the sum of the column, hence
  the dashboard, fails with a type error instead of showing a total.  After the fees
  \<open>(1, 500, 9223372036854775807)\<close> and \<open>(2, 300, 1)\<close> the 64-bit sum wraps around and the
  metric is \<open>-9223372036854775808\<close>, not the sum.
\<close>

theorem total_fees_paid_type_error:
  "session (\<lambda>s. None) fresh_store
     [Add_record Fees [''1'', ''500'', ''1''], Add_record Fees [''2'', ''300'', ''yes'']] =
   Inr (fresh_store(''fees'' \<mapsto> text_fees)) \<and>
   total_fees_paid (\<lambda>cs. Inr SNull) (fresh_store(''fees'' \<mapsto> text_fees)) = Inl Type_error \<and>
   session (\<lambda>s. None) fresh_store
     [Add_record Fees [''1'', ''500'', ''9223372036854775807''], Add_record Fees [''2'', ''300'', ''1'']] =
   Inr (fresh_store(''fees'' \<mapsto> big_fees)) \<and>
   total_fees_paid (\<lambda>cs. Inr SNull) (fresh_store(''fees'' \<mapsto> big_fees)) =
     Inr (SInteger (- 9223372036854775808))"
  by (simp add: crud_add_def add_record_def inserted_cells_def fresh_store_fees new_rowid_def
      max_rowid_def numeric_text_def plain_decimal_def is_digit_def digits_value_def int64_def
      text_fees_def big_fees_def total_fees_paid_def get_df_def empty_df_def get_column_def
      row_cells_def column_sum_def wrap64_def numeral_3_eq_3 to_double_small)

text \<open>
  Claim C5, amended.  With the fees table as the script declares it, when every \<open>paid\<close>
  cell holds an integer and the total of these integers fits in 64 bits, Total Fees
  Paid is that total: the sum of the \<open>paid\<close> column and not of \<open>amount\<close>; it is 0 when the
  table is empty.  After the fees \<open>(1, 500, 1)\<close> and \<open>(2, 300, 0)\<close> are added to an empty
  table, it is 1.
\<close>

theorem total_fees_paid_sum:
  assumes "db ''fees'' = Some T"
    and "schema T = [(''student_id'', INTEGER), (''amount'', REAL), (''paid'', INTEGER)]"
    and "map (\<lambda>r. cells r ! 2) (rows T) = map SInteger ns"
    and "int64 (sum_list ns)"
  shows "total_fees_paid fsum db = Inr (SInteger (sum_list ns)) \<and>
         (rows T = [] \<longrightarrow> total_fees_paid fsum db = Inr (SInteger 0))"
proof -
  let ?df = "\<lparr>columns = ''id'' # map fst (schema T), data = map row_cells (rows T)\<rparr>"
  have df: "get_df db ''fees'' = Inr ?df"
    using assms(1) by (simp add: get_df_def)
  have total: "total_fees_paid fsum db = Inr (SInteger (sum_list ns))"
  proof (cases "rows T = []")
    case True
    with assms(3) have "ns = []" by simp
    with True show ?thesis by (simp add: total_fees_paid_def df empty_df_def)
  next
    case False
    then have "\<not> empty_df ?df" by (simp add: empty_df_def)
    then have "total_fees_paid fsum db = column_sum fsum (map (\<lambda>r. cells r ! 2) (rows T))"
      by (simp add: total_fees_paid_def df paid_column [OF assms(2)])
    then show ?thesis
      by (simp add: assms(3) column_sum_integers [OF assms(4)])
  qed
  moreover have "ns = []" if "rows T = []"
    using that assms(3) by simp
  ultimately show ?thesis by auto
qed

theorem total_fees_paid_sum_witness:
  "session (\<lambda>s. None) fresh_store
     [Add_record Fees [''1'', ''500'', ''1''], Add_record Fees [''2'', ''300'', ''0'']] =
   Inr (fresh_store(''fees'' \<mapsto> demo_fees)) \<and>
   (fresh_store(''fees'' \<mapsto> demo_fees)) ''fees'' = Some demo_fees \<and>
   map (\<lambda>r. cells r ! 2) (rows demo_fees) = map SInteger [1, 0] \<and>
   int64 (sum_list [1, 0]) \<and>
   total_fees_paid (\<lambda>cs. Inr SNull) (fresh_store(''fees'' \<mapsto> demo_fees)) = Inr (SInteger 1)"
proof -
  have h1: "(fresh_store(''fees'' \<mapsto> demo_fees)) ''fees'' = Some demo_fees" by simp
  have h2: "schema demo_fees = [(''student_id'', INTEGER), (''amount'', REAL), (''paid'', INTEGER)]"
    by (simp add: demo_fees_def)
  have h3: "map (\<lambda>r. cells r ! 2) (rows demo_fees) = map SInteger [1, 0]"
    by (simp add: demo_fees_def)
  have h4: "int64 (sum_list [1, 0])" by (simp add: int64_def)
  from total_fees_paid_sum [where fsum = "\<lambda>cs. Inr SNull" and db = "fresh_store(''fees'' \<mapsto> demo_fees)",
      OF h1 h2 h3 h4]
  show ?thesis using session_two_fees h1 h3 h4 by simp
qed

subsection \<open>Updating a record\<close>



lemma rid_write_cell: "rid (write_cell k v i r) = rid r"
  by (simp add: write_cell_def)

lemma table_inv_write_cell:
  assumes "table_inv T"
  shows "table_inv (T\<lparr>rows := map (write_cell k v i) (rows T)\<rparr>)"
proof -
  have "map rid (map (write_cell k v i) (rows T)) = map rid (rows T)"
    by (simp add: rid_write_cell comp_def)
  moreover have "list_all (\<lambda>r. length (cells r) = length (schema T)) (map (write_cell k v i) (rows T))"
    using assms by (auto simp: table_inv_def list_all_iff write_cell_def)
  ultimately show ?thesis using assms by (simp add: table_inv_def del: map_map)
qed












subsection \<open>Searching\<close>

lemma compile_atom_plain: "plain_char c \<Longrightarrow> compile_atom c = Some (Lit c)"
  by (auto simp: plain_char_def compile_atom_def meta_chars_def)

lemma those_map_Some: "those (map Some xs) = Some xs"
  by (induction xs) simp_all

lemma those_compile_plain: "list_all plain_char q \<Longrightarrow> those (map compile_atom q) = Some (map Lit q)"
  by (induction q) (simp_all add: compile_atom_plain)

lemma re_compile_plain: "list_all plain_char q \<Longrightarrow> re_compile q = Inr (map Lit q)"
proof -
  assume plain: "list_all plain_char q"
  have "hd q \<notin> set [CHR ''*'', CHR ''+'', CHR ''?'']" if "q \<noteq> []"
  proof -
    from that plain have "plain_char (hd q)" by (cases q) simp_all
    then show ?thesis by (auto simp: plain_char_def meta_chars_def)
  qed
  then show ?thesis
    using those_compile_plain [OF plain] by (auto simp: re_compile_def)
qed

lemma match_here_literal:
  "match_here (map Lit q) s \<longleftrightarrow> prefix (map to_lower q) (map to_lower s)"
proof (induction q arbitrary: s)
  case Nil
  then show ?case by simp
next
  case (Cons a q)
  then show ?case by (cases s) auto
qed

lemma re_search_literal:
  "re_search (map Lit q) s \<longleftrightarrow> sublist (map to_lower q) (map to_lower s)"
proof (induction s)
  case Nil
  then show ?case by (simp add: match_here_literal)
next
  case (Cons c s)
  have "re_search (map Lit q) (c # s) \<longleftrightarrow>
      match_here (map Lit q) (c # s) \<or> re_search (map Lit q) s" by simp
  also have "\<dots> \<longleftrightarrow> prefix (map to_lower q) (map to_lower (c # s)) \<or>
      sublist (map to_lower q) (map to_lower s)"
    by (simp only: match_here_literal Cons.IH)
  also have "\<dots> \<longleftrightarrow> sublist (map to_lower q) (map to_lower (c # s))"
    by (simp add: sublist_Cons_right)
  finally show ?case .
qed

lemma re_search_contains_ci: "re_search (map Lit q) s = contains_ci q s"
  by (simp add: re_search_literal contains_ci_def)

lemma demo_students_frame:
  "get_df demo_store ''students'' =
     Inr \<lparr>columns = [''id'', ''name'', ''class'', ''age''],
          data = [[SInteger 1, SText ''Aisha'', SText ''5A'', SInteger 10],
                  [SInteger 2, SText ''Bilal'', SText ''6B'', SInteger 11]]\<rparr>"
  by (simp add: get_df_def demo_store_students demo_students_def row_cells_def)

lemma str_int_examples:
  "str_int 1 = ''1''" "str_int 2 = ''2''" "str_int 10 = ''10''" "str_int 11 = ''11''"
  by (simp_all add: str_int_def digits.simps digit_char_def)

lemma dot_not_contained:
  "\<not> contains_ci ''.'' ''1''" "\<not> contains_ci ''.'' ''Aisha''"
  "\<not> contains_ci ''.'' ''5A''" "\<not> contains_ci ''.'' ''10''"
  by code_simp+

lemma plain_aisha: "list_all plain_char ''aisha''"
  by (simp add: plain_char_def meta_chars_def)

lemma aisha_contained:
  "contains_ci ''aisha'' ''Aisha''"
  "\<not> contains_ci ''aisha'' ''1''" "\<not> contains_ci ''aisha'' ''5A''" "\<not> contains_ci ''aisha'' ''10''"
  "\<not> contains_ci ''aisha'' ''2''" "\<not> contains_ci ''aisha'' ''Bilal''"
  "\<not> contains_ci ''aisha'' ''6B''" "\<not> contains_ci ''aisha'' ''11''"
  by code_simp+

text \<open>
  Claim C3.  The script hands the text of the search box to the frame library's
  \<open>str.contains\<close> without \<open>regex=False\<close>, so the text is read as a regular expression
  and not as a substring.  The query \<open>.\<close> keeps both rows of the example students
  table, although no string form of the first row (\<open>1\<close>, \<open>Aisha\<close>, \<open>5A\<close>, \<open>10\<close>)
  contains a dot; the query \<open>*\<close> is no regular expression, so the library raises and no
  result is shown, where a substring search finds no row and shows the empty result.
\<close>

theorem crud_search_dot_matches_all:
  "crud_search (\<lambda>df r. []) demo_store ''students'' ''.'' =
     Inr [[SInteger 1, SText ''Aisha'', SText ''5A'', SInteger 10],
          [SInteger 2, SText ''Bilal'', SText ''6B'', SInteger 11]] \<and>
   astype_str (\<lambda>df r. [])
     \<lparr>columns = [''id'', ''name'', ''class'', ''age''],
      data = [[SInteger 1, SText ''Aisha'', SText ''5A'', SInteger 10],
              [SInteger 2, SText ''Bilal'', SText ''6B'', SInteger 11]]\<rparr>
     [SInteger 1, SText ''Aisha'', SText ''5A'', SInteger 10] = [''1'', ''Aisha'', ''5A'', ''10''] \<and>
   \<not> contains_ci ''.'' ''1'' \<and> \<not> contains_ci ''.'' ''Aisha'' \<and>
   \<not> contains_ci ''.'' ''5A'' \<and> \<not> contains_ci ''.'' ''10'' \<and>
   crud_search (\<lambda>df r. []) demo_store ''students'' ''*'' = Inl Re_error"
  by (simp add: crud_search_def demo_students_frame re_compile_def compile_atom_def
      astype_str_def plain_frame_def str_int_examples dot_not_contained)

text \<open>
  What the search does find: for a table of the store and a non-empty query in which
  no character is one that the pattern language reads specially, the search returns
  exactly those rows of the full snapshot, in order, in which the string form of at
  least one column (the identifier included) contains the query when case is ignored;
  when no cell of any row does, the result has no row.  With an empty query every row
  of the snapshot is returned.
\<close>

theorem crud_search_plain_query:
  assumes "db t = Some T" and "search \<noteq> []" and "list_all plain_char search"
  shows "get_df db t = Inr \<lparr>columns = ''id'' # map fst (schema T), data = map row_cells (rows T)\<rparr> \<and>
         crud_search flt db t search =
           Inr (filter
                  (\<lambda>r. list_ex (contains_ci search)
                         (astype_str flt
                           \<lparr>columns = ''id'' # map fst (schema T), data = map row_cells (rows T)\<rparr> r))
                  (map row_cells (rows T))) \<and>
         (list_all
            (\<lambda>r. \<not> list_ex (contains_ci search)
                   (astype_str flt
                     \<lparr>columns = ''id'' # map fst (schema T), data = map row_cells (rows T)\<rparr> r))
            (map row_cells (rows T)) \<longrightarrow>
            crud_search flt db t search = Inr []) \<and>
         crud_search flt db t [] = Inr (map row_cells (rows T))"
proof -
  let ?df = "\<lparr>columns = ''id'' # map fst (schema T), data = map row_cells (rows T)\<rparr>"
  have df: "get_df db t = Inr ?df" using assms(1) by (simp add: get_df_def)
  have p: "re_compile search = Inr (map Lit search)"
    using assms(3) by (rule re_compile_plain)
  have keep: "re_search (map Lit search) = contains_ci search"
    by (rule ext) (rule re_search_contains_ci)
  have run: "crud_search flt db t search =
      Inr (filter (\<lambda>r. list_ex (contains_ci search) (astype_str flt ?df r)) (map row_cells (rows T)))"
    using assms(2) by (simp add: crud_search_def df p keep)
  have none: "crud_search flt db t search = Inr []"
    if "list_all (\<lambda>r. \<not> list_ex (contains_ci search) (astype_str flt ?df r)) (map row_cells (rows T))"
  proof -
    from that have "filter (\<lambda>r. list_ex (contains_ci search) (astype_str flt ?df r)) (map row_cells (rows T)) = []"
      by (simp add: filter_empty_conv list_all_iff)
    with run show ?thesis by simp
  qed
  have blank: "crud_search flt db t [] = Inr (map row_cells (rows T))"
    by (simp add: crud_search_def df)
  show ?thesis using df run none blank by blast
qed

lemma no_zz:
  "\<not> contains_ci ''zz'' ''Aisha''"
  "\<not> contains_ci ''zz'' ''1''" "\<not> contains_ci ''zz'' ''5A''" "\<not> contains_ci ''zz'' ''10''"
  "\<not> contains_ci ''zz'' ''2''" "\<not> contains_ci ''zz'' ''Bilal''"
  "\<not> contains_ci ''zz'' ''6B''" "\<not> contains_ci ''zz'' ''11''"
  by code_simp+

theorem crud_search_plain_query_witness:
  "demo_store ''students'' = Some demo_students \<and> list_all plain_char ''aisha'' \<and>
   list_all plain_char ''zz'' \<and>
   crud_search (\<lambda>df r. []) demo_store ''students'' ''aisha'' =
     Inr [[SInteger 1, SText ''Aisha'', SText ''5A'', SInteger 10]] \<and>
   crud_search (\<lambda>df r. []) demo_store ''students'' ''zz'' = Inr [] \<and>
   crud_search (\<lambda>df r. []) demo_store ''students'' [] =
     Inr [[SInteger 1, SText ''Aisha'', SText ''5A'', SInteger 10],
          [SInteger 2, SText ''Bilal'', SText ''6B'', SInteger 11]]"
proof -
  have h1: "demo_store ''students'' = Some demo_students" by (rule demo_store_students)
  have h2: "''aisha'' \<noteq> []" "''zz'' \<noteq> []" by simp_all
  have h3: "list_all plain_char ''aisha''" by (rule plain_aisha)
  have h4: "list_all plain_char ''zz''" by (simp add: plain_char_def meta_chars_def)
  note w = crud_search_plain_query [where db = demo_store and flt = "\<lambda>df r. []", OF h1 h2(1) h3]
  note z = crud_search_plain_query [where db = demo_store and flt = "\<lambda>df r. []", OF h1 h2(2) h4]
  have "crud_search (\<lambda>df r. []) demo_store ''students'' ''aisha'' =
     Inr [[SInteger 1, SText ''Aisha'', SText ''5A'', SInteger 10]]"
    using w [THEN conjunct2, THEN conjunct1]
    by (simp add: demo_students_def row_cells_def astype_str_def plain_frame_def
        str_int_examples aisha_contained)
  moreover have "crud_search (\<lambda>df r. []) demo_store ''students'' ''zz'' = Inr []"
    using z [THEN conjunct2, THEN conjunct1]
    by (simp add: demo_students_def row_cells_def astype_str_def plain_frame_def
        str_int_examples no_zz)
  moreover have "crud_search (\<lambda>df r. []) demo_store ''students'' [] =
     Inr [[SInteger 1, SText ''Aisha'', SText ''5A'', SInteger 10],
          [SInteger 2, SText ''Bilal'', SText ''6B'', SInteger 11]]"
    using w [THEN conjunct2, THEN conjunct2, THEN conjunct2]
    by (simp add: demo_students_def row_cells_def)
  ultimately show ?thesis using h1 h3 h4 by simp
qed

subsection \<open>Marking attendance\<close>






subsection \<open>What each write does to the rows of a table\<close>

lemma inserted_cells_length: "length (inserted_cells lit sch cols vals) = length sch"
  by (simp add: inserted_cells_def)

lemma table_inv_append:
  assumes "table_inv T" and "new_rowid (rows T) = Inr i" and "length cs = length (schema T)"
  shows "table_inv (T\<lparr>rows := rows T @ [\<lparr>rid = i, cells = cs\<rparr>]\<rparr>)"
proof -
  have "\<forall>r\<in>set (rows T). rid r < i" using new_rowid_above [OF assms(2)] by blast
  with assms(1) have "sorted_wrt (<) (map rid (rows T @ [\<lparr>rid = i, cells = cs\<rparr>]))"
    by (simp add: table_inv_def sorted_wrt_append)
  with assms(1,3) show ?thesis by (simp add: table_inv_def)
qed

lemma table_inv_filter:
  assumes "table_inv T"
  shows "table_inv (T\<lparr>rows := filter P (rows T)\<rparr>)"
proof -
  have "sorted_wrt (<) (map rid (filter P (rows T)))"
    using assms by (simp add: table_inv_def sorted_wrt_map sorted_wrt_filter)
  moreover have "list_all (\<lambda>r. length (cells r) = length (schema T)) (filter P (rows T))"
    using assms by (auto simp: table_inv_def list_all_iff)
  ultimately show ?thesis using assms by (simp add: table_inv_def)
qed

lemma add_record_effect:
  assumes "add_record lit db t cols vals = Inr db'" and "db t' = Some T"
  shows "\<exists>T'. db' t' = Some T' \<and> schema T' = schema T \<and> (table_inv T \<longrightarrow> table_inv T') \<and>
           (rows T' = rows T \<or>
            (\<exists>i cs. new_rowid (rows T) = Inr i \<and> rows T' = rows T @ [\<lparr>rid = i, cells = cs\<rparr>]))"
proof (cases "t' = t")
  case False
  from assms(1) obtain T0 X where "db t = Some T0" "db' = db(t \<mapsto> X)"
    by (auto simp: add_record_def split: option.splits if_splits sum.splits)
  with False assms(2) show ?thesis by auto
next
  case True
  with assms(2) have dbt: "db t = Some T" by simp
  from assms(1) dbt obtain i where i: "new_rowid (rows T) = Inr i"
    and db': "db' = db(t \<mapsto> T\<lparr>rows := rows T @ [\<lparr>rid = i, cells = inserted_cells lit (schema T) cols vals\<rparr>]\<rparr>)"
    by (auto simp: add_record_def split: if_splits sum.splits)
  let ?T' = "T\<lparr>rows := rows T @ [\<lparr>rid = i, cells = inserted_cells lit (schema T) cols vals\<rparr>]\<rparr>"
  have "table_inv T \<longrightarrow> table_inv ?T'"
    using table_inv_append [OF _ i inserted_cells_length] by blast
  with True db' i show ?thesis by auto
qed

lemma delete_record_effect:
  assumes "delete_record db t i = Inr db'" and "db t' = Some T"
  shows "\<exists>T'. db' t' = Some T' \<and> schema T' = schema T \<and> (table_inv T \<longrightarrow> table_inv T') \<and>
           (rows T' = rows T \<or> rows T' = filter (\<lambda>r. rid r \<noteq> i) (rows T))"
proof (cases "t' = t")
  case False
  from assms(1) obtain X where "db' = db(t \<mapsto> X)"
    by (auto simp: delete_record_def split: option.splits if_splits)
  with False assms(2) show ?thesis by auto
next
  case True
  with assms(2) have dbt: "db t = Some T" by simp
  with assms(1) have "db' = db(t \<mapsto> T\<lparr>rows := filter (\<lambda>r. rid r \<noteq> i) (rows T)\<rparr>)"
    by (auto simp: delete_record_def split: if_splits)
  with True table_inv_filter [of T "\<lambda>r. rid r \<noteq> i"] show ?thesis by auto
qed

lemma update_field_effect:
  assumes "update_field lit db t f v i = Inr db'" and "db t' = Some T"
  shows "\<exists>T'. db' t' = Some T' \<and> schema T' = schema T \<and> (table_inv T \<longrightarrow> table_inv T') \<and>
           map rid (rows T') = map rid (rows T)"
proof (cases "t' = t")
  case False
  from assms(1) obtain X where "db' = db(t \<mapsto> X)"
    by (auto simp: update_field_def split: option.splits if_splits)
  with False assms(2) show ?thesis by auto
next
  case True
  with assms(2) have dbt: "db t = Some T" by simp
  with assms(1) obtain k c where "db' = db(t \<mapsto> T\<lparr>rows := map (write_cell k c i) (rows T)\<rparr>)"
    by (auto simp: update_field_def split: if_splits option.splits)
  moreover have "map rid (map (write_cell k c i) (rows T)) = map rid (rows T)"
    by (simp add: rid_write_cell comp_def)
  ultimately show ?thesis
    using True table_inv_write_cell [of T k c i] by (auto simp del: map_map)
qed

lemma update_loop_effect:
  assumes "update_loop lit db t fvs i = Inr db'" and "db t' = Some T"
  shows "\<exists>T'. db' t' = Some T' \<and> schema T' = schema T \<and> (table_inv T \<longrightarrow> table_inv T') \<and>
           map rid (rows T') = map rid (rows T)"
  using assms
proof (induction fvs arbitrary: db T)
  case Nil
  then show ?case by simp
next
  case (Cons p fvs)
  obtain f v where p: "p = (f, v)" by (cases p)
  show ?case
  proof (cases "v = []")
    case True
    with Cons.prems p have "update_loop lit db t fvs i = Inr db'" by simp
    from Cons.IH [OF this Cons.prems(2)] show ?thesis .
  next
    case False
    with Cons.prems(1) p obtain db1 where
      one: "update_field lit db t f (PyStr v) i = Inr db1" and
      rest: "update_loop lit db1 t fvs i = Inr db'"
      by (auto split: sum.splits)
    from update_field_effect [OF one Cons.prems(2)] obtain T1 where
      T1: "db1 t' = Some T1" "schema T1 = schema T" "table_inv T \<longrightarrow> table_inv T1"
        "map rid (rows T1) = map rid (rows T)" by blast
    from Cons.IH [OF rest T1(1)] obtain T' where
      "db' t' = Some T'" "schema T' = schema T1" "table_inv T1 \<longrightarrow> table_inv T'"
        "map rid (rows T') = map rid (rows T1)" by blast
    with T1 show ?thesis by auto
  qed
qed

lemma add_record_assigns:
  assumes "add_record lit db t cols vals = Inr db'" and "db t = Some T"
  shows "\<exists>i. new_rowid (rows T) = Inr i \<and> i \<notin> rid ` set (rows T) \<and>
           db' t = Some (T\<lparr>rows := rows T @ [\<lparr>rid = i, cells = inserted_cells lit (schema T) cols vals\<rparr>]\<rparr>)"
proof -
  from assms obtain i where i: "new_rowid (rows T) = Inr i"
    and db': "db' = db(t \<mapsto> T\<lparr>rows := rows T @ [\<lparr>rid = i, cells = inserted_cells lit (schema T) cols vals\<rparr>]\<rparr>)"
    by (auto simp: add_record_def split: if_splits sum.splits)
  have "i \<notin> rid ` set (rows T)" using new_rowid_above [OF i] by auto
  with i db' show ?thesis by simp
qed

lemma modules_never_name_id:
  "\<forall>m\<in>set modules. ''id'' \<notin> set (module_fields m) \<and> ''id'' \<notin> set (module_add_cols m)"
  by (simp add: modules_def)

lemma perform_effect:
  assumes "perform lit db a = Inr db'" and "db t = Some T"
  shows "\<exists>T'. db' t = Some T' \<and> schema T' = schema T \<and> (table_inv T \<longrightarrow> table_inv T') \<and>
     (case a of
        Add_record m inputs \<Rightarrow>
          rows T' = rows T \<or>
          (\<exists>i cs. new_rowid (rows T) = Inr i \<and> rows T' = rows T @ [\<lparr>rid = i, cells = cs\<rparr>])
      | Update_record m record_id updates \<Rightarrow> map rid (rows T') = map rid (rows T)
      | Delete_record m record_id \<Rightarrow>
          rows T' = rows T \<or> rows T' = filter (\<lambda>r. rid r \<noteq> record_id) (rows T)
      | Mark_attendance student_id today st \<Rightarrow>
          rows T' = rows T \<or>
          (\<exists>i cs. new_rowid (rows T) = Inr i \<and> rows T' = rows T @ [\<lparr>rid = i, cells = cs\<rparr>]))"
proof (cases a)
  case (Add_record m inputs)
  with assms(1) have "add_record lit db (module_table m) (module_add_cols m) (map PyStr inputs) = Inr db'"
    by (simp add: crud_add_def)
  from add_record_effect [OF this assms(2)] Add_record show ?thesis by simp
next
  case (Update_record m record_id updates)
  with assms(1) have "update_loop lit db (module_table m) (zip (module_fields m) updates) record_id = Inr db'"
    by (simp add: crud_update_def)
  from update_loop_effect [OF this assms(2)] Update_record show ?thesis by simp
next
  case (Delete_record m record_id)
  with assms(1) have "delete_record db (module_table m) record_id = Inr db'"
    by (simp add: crud_delete_def)
  from delete_record_effect [OF this assms(2)] Delete_record show ?thesis by simp
next
  case (Mark_attendance student_id today st)
  with assms(1) have "add_record lit db ''attendance'' [''student_id'', ''date'', ''status'']
      [PyInt student_id, PyStr today, PyStr (status_str st)] = Inr db'"
    by (simp add: mark_attendance_def)
  from add_record_effect [OF this assms(2)] Mark_attendance show ?thesis by simp
qed

lemma plain_decimal_examples:
  "plain_decimal ''10'' = Some 10" "plain_decimal ''11'' = Some 11" "plain_decimal ''12'' = Some 12"
  "plain_decimal ''Aisha'' = None" "plain_decimal ''6A'' = None"
  by (simp_all add: plain_decimal_def is_digit_def digits_value_def int64_def)

lemma perform_update_demo:
  "perform (\<lambda>s. None) demo_store (Update_record Students 1 [[], ''6A'', []]) =
     Inr (demo_store(''students'' \<mapsto> demo_students\<lparr>rows :=
       [\<lparr>rid = 1, cells = [SText ''Aisha'', SText ''6A'', SInteger 10]\<rparr>,
        \<lparr>rid = 2, cells = [SText ''Bilal'', SText ''6B'', SInteger 11]\<rparr>]\<rparr>))"
  by (simp add: crud_update_def update_field_def demo_store_students demo_students_def
      int64_def write_cell_def)

text \<open>
  Claim C10.  No field list that the router passes to the generic view names the \<open>id\<close>
  column, neither for the update panel nor for the add panel.  Whatever write returns,
  every table is still there and the identifiers of its rows are as they were: an
  update leaves the list of identifiers of every table as it was, position by position;
  an insertion (the add panel or the attendance action) leaves the rows as they were
  and at most appends one row; a deletion leaves the rows as they were or drops the
  rows of the given identifier, the others untouched.  (A statement that names \<open>id\<close> as
  its target is outside the model and faults; the first part shows that the script
  never issues one.)
\<close>

theorem identifiers_immutable:
  assumes "perform lit db a = Inr db'" and "db t = Some T"
  shows "(\<forall>m\<in>set modules. ''id'' \<notin> set (module_fields m) \<and> ''id'' \<notin> set (module_add_cols m)) \<and>
     (\<exists>T'. db' t = Some T' \<and>
        (case a of
           Add_record m inputs \<Rightarrow>
             rows T' = rows T \<or>
             (\<exists>i cs. new_rowid (rows T) = Inr i \<and> rows T' = rows T @ [\<lparr>rid = i, cells = cs\<rparr>])
         | Update_record m record_id updates \<Rightarrow> map rid (rows T') = map rid (rows T)
         | Delete_record m record_id \<Rightarrow>
             rows T' = rows T \<or> rows T' = filter (\<lambda>r. rid r \<noteq> record_id) (rows T)
         | Mark_attendance student_id today st \<Rightarrow>
             rows T' = rows T \<or>
             (\<exists>i cs. new_rowid (rows T) = Inr i \<and> rows T' = rows T @ [\<lparr>rid = i, cells = cs\<rparr>])))"
  using perform_effect [OF assms] modules_never_name_id by blast

theorem identifiers_immutable_witness:
  "perform (\<lambda>s. None) demo_store (Update_record Students 1 [[], ''6A'', []]) =
     Inr (demo_store(''students'' \<mapsto> demo_students\<lparr>rows :=
       [\<lparr>rid = 1, cells = [SText ''Aisha'', SText ''6A'', SInteger 10]\<rparr>,
        \<lparr>rid = 2, cells = [SText ''Bilal'', SText ''6B'', SInteger 11]\<rparr>]\<rparr>)) \<and>
   demo_store ''students'' = Some demo_students \<and>
   map rid (rows demo_students) = [1, 2] \<and>
   (\<exists>T'. (demo_store(''students'' \<mapsto> demo_students\<lparr>rows :=
       [\<lparr>rid = 1, cells = [SText ''Aisha'', SText ''6A'', SInteger 10]\<rparr>,
        \<lparr>rid = 2, cells = [SText ''Bilal'', SText ''6B'', SInteger 11]\<rparr>]\<rparr>)) ''students'' = Some T' \<and>
      map rid (rows T') = [1, 2])"
proof -
  have ids: "map rid (rows demo_students) = [1, 2]" by (simp add: demo_students_def)
  from identifiers_immutable [OF perform_update_demo demo_store_students]
  show ?thesis using perform_update_demo demo_store_students ids by simp
qed

subsection \<open>Sessions\<close>

lemma session_effect:
  assumes "session lit db as = Inr db'" and "db t = Some T" and "table_inv T"
  shows "\<exists>T'. db' t = Some T' \<and> schema T' = schema T \<and> table_inv T'"
  using assms
proof (induction as arbitrary: db T)
  case Nil
  then show ?case by simp
next
  case (Cons a as)
  from Cons.prems(1) obtain db1 where one: "perform lit db a = Inr db1"
    and rest: "session lit db1 as = Inr db'"
    by (auto split: sum.splits)
  from perform_effect [OF one Cons.prems(2)] Cons.prems(3) obtain T1 where
    T1: "db1 t = Some T1" "schema T1 = schema T" "table_inv T1" by blast
  from Cons.IH [OF rest T1(1,3)] T1(2) show ?case by auto
qed

lemma demo_session_run:
  "session (\<lambda>s. None) fresh_store demo_session =
     Inr (fresh_store(''students'' \<mapsto>
       \<lparr>schema = [(''name'', TEXT), (''class'', TEXT), (''age'', INTEGER)],
        rows = [\<lparr>rid = 1, cells = [SText ''Aisha'', SText ''6A'', SInteger 10]\<rparr>,
                \<lparr>rid = 2, cells = [SText ''Zara'', SText ''7C'', SInteger 12]\<rparr>]\<rparr>))"
  by (simp add: demo_session_def crud_add_def crud_delete_def crud_update_def add_record_def
      delete_record_def update_field_def inserted_cells_def fresh_store_students new_rowid_def
      max_rowid_def numeric_text_def plain_decimal_examples int64_def write_cell_def)

text \<open>
  Claim C8.  Start from a store in which the table satisfies the engine's invariant (an
  empty table does).  After any session of insertions, updates and deletions that runs
  to its end, the table is still there with its schema, satisfies the invariant, and the
  identifiers of its rows are pairwise distinct.  No add panel names the \<open>id\<close> column,
  and each insertion, by the add panel or by the attendance action, appends a row whose
  identifier is the one the store computes (\<open>new_rowid\<close>), which no row of the table has.
\<close>

theorem identifiers_distinct:
  assumes "db t = Some T" and "table_inv T" and "session lit db as = Inr db'"
  shows "(\<exists>T'. db' t = Some T' \<and> schema T' = schema T \<and> table_inv T' \<and> distinct (map rid (rows T'))) \<and>
     (\<forall>m\<in>set modules. ''id'' \<notin> set (module_add_cols m)) \<and>
     (\<forall>m inputs db1 db2 T1.
        perform lit db1 (Add_record m inputs) = Inr db2 \<and> db1 (module_table m) = Some T1 \<longrightarrow>
        (\<exists>i cs. new_rowid (rows T1) = Inr i \<and> i \<notin> rid ` set (rows T1) \<and>
           db2 (module_table m) = Some (T1\<lparr>rows := rows T1 @ [\<lparr>rid = i, cells = cs\<rparr>]\<rparr>))) \<and>
     (\<forall>student_id today st db1 db2 T1.
        perform lit db1 (Mark_attendance student_id today st) = Inr db2 \<and> db1 ''attendance'' = Some T1 \<longrightarrow>
        (\<exists>i cs. new_rowid (rows T1) = Inr i \<and> i \<notin> rid ` set (rows T1) \<and>
           db2 ''attendance'' = Some (T1\<lparr>rows := rows T1 @ [\<lparr>rid = i, cells = cs\<rparr>]\<rparr>)))"
proof -
  from session_effect [OF assms(3,1,2)] obtain T' where
    T': "db' t = Some T'" "schema T' = schema T" "table_inv T'" by blast
  from T'(3) have "distinct (map rid (rows T'))"
    by (simp add: table_inv_def sorted_rid_distinct)
  with T' have first: "\<exists>T'. db' t = Some T' \<and> schema T' = schema T \<and> table_inv T' \<and> distinct (map rid (rows T'))"
    by blast
  have second: "\<forall>m\<in>set modules. ''id'' \<notin> set (module_add_cols m)"
    using modules_never_name_id by blast
  have third: "\<exists>i cs. new_rowid (rows T1) = Inr i \<and> i \<notin> rid ` set (rows T1) \<and>
           db2 (module_table m) = Some (T1\<lparr>rows := rows T1 @ [\<lparr>rid = i, cells = cs\<rparr>]\<rparr>)"
    if "perform lit db1 (Add_record m inputs) = Inr db2" "db1 (module_table m) = Some T1"
    for m inputs db1 db2 T1
  proof -
    from that(1) have "add_record lit db1 (module_table m) (module_add_cols m) (map PyStr inputs) = Inr db2"
      by (simp add: crud_add_def)
    from add_record_assigns [OF this that(2)] show ?thesis by blast
  qed
  have fourth: "\<exists>i cs. new_rowid (rows T1) = Inr i \<and> i \<notin> rid ` set (rows T1) \<and>
           db2 ''attendance'' = Some (T1\<lparr>rows := rows T1 @ [\<lparr>rid = i, cells = cs\<rparr>]\<rparr>)"
    if "perform lit db1 (Mark_attendance student_id today st) = Inr db2" "db1 ''attendance'' = Some T1"
    for student_id today st db1 db2 T1
  proof -
    from that(1) have "add_record lit db1 ''attendance'' [''student_id'', ''date'', ''status'']
        [PyInt student_id, PyStr today, PyStr (status_str st)] = Inr db2"
      by (simp add: mark_attendance_def)
    from add_record_assigns [OF this that(2)] show ?thesis by blast
  qed
  show ?thesis using first second third fourth by blast
qed

theorem identifiers_distinct_witness:
  "fresh_store ''students'' =
     Some \<lparr>schema = [(''name'', TEXT), (''class'', TEXT), (''age'', INTEGER)], rows = []\<rparr> \<and>
   table_inv \<lparr>schema = [(''name'', TEXT), (''class'', TEXT), (''age'', INTEGER)], rows = []\<rparr> \<and>
   session (\<lambda>s. None) fresh_store demo_session =
     Inr (fresh_store(''students'' \<mapsto>
       \<lparr>schema = [(''name'', TEXT), (''class'', TEXT), (''age'', INTEGER)],
        rows = [\<lparr>rid = 1, cells = [SText ''Aisha'', SText ''6A'', SInteger 10]\<rparr>,
                \<lparr>rid = 2, cells = [SText ''Zara'', SText ''7C'', SInteger 12]\<rparr>]\<rparr>)) \<and>
   (\<exists>T'. (fresh_store(''students'' \<mapsto>
       \<lparr>schema = [(''name'', TEXT), (''class'', TEXT), (''age'', INTEGER)],
        rows = [\<lparr>rid = 1, cells = [SText ''Aisha'', SText ''6A'', SInteger 10]\<rparr>,
                \<lparr>rid = 2, cells = [SText ''Zara'', SText ''7C'', SInteger 12]\<rparr>]\<rparr>)) ''students'' = Some T' \<and>
      table_inv T' \<and> distinct (map rid (rows T')) \<and> map rid (rows T') = [1, 2])"
proof -
  let ?E = "\<lparr>schema = [(''name'', TEXT), (''class'', TEXT), (''age'', INTEGER)], rows = []\<rparr>"
  have h1: "fresh_store ''students'' = Some ?E" by (rule fresh_store_students)
  have h2: "table_inv ?E" by (simp add: table_inv_def)
  from identifiers_distinct [OF h1 h2 demo_session_run, THEN conjunct1]
  show ?thesis using h1 h2 demo_session_run by auto
qed

end
